theory Spec2Isabelle
  imports Complex_Main "HOL-Library.List_Lexorder" "HOL-Library.Char_ord" "HOL-Library.AList"
    "HOL-Library.Multiset"
begin

section \<open>divachain: blocks, transactions, the transaction pool and the stake credits\<close>

text \<open>
  The development follows the TypeScript sources: \<^verbatim>\<open>chain/transaction.ts\<close> (the
  \<^verbatim>\<open>Transaction\<close> class), \<^verbatim>\<open>chain/wallet.ts\<close>, \<^verbatim>\<open>blockchain/block.ts\<close>,
  \<^verbatim>\<open>pool/transaction-pool.ts\<close> and \<^verbatim>\<open>net/server.ts\<close>.

  JavaScript numbers that hold counters, heights and millisecond timestamps are modelled as
  \<open>int\<close> (they are integral and stay far below \<open>2^53\<close>), the quorum as \<open>real\<close>, strings as
  \<open>string\<close> with the lexicographic order on characters that \<^verbatim>\<open>a > b\<close> has on strings,
  and a \<^verbatim>\<open>Map\<close> as an association list in insertion order.
\<close>

subsection \<open>Numbers in string concatenations\<close>

text \<open>\<^verbatim>\<open>'' + n\<close> for an integral number \<open>n\<close>: decimal digits, a leading minus sign.\<close>

fun string_of_nat :: "nat \<Rightarrow> string" where
  "string_of_nat n =
     (if n < 10 then [''0123456789'' ! n]
      else string_of_nat (n div 10) @ [''0123456789'' ! (n mod 10)])"

declare string_of_nat.simps [simp del]

definition string_of_int :: "int \<Rightarrow> string" where
  "string_of_int i = (if i < 0 then ''-'' @ string_of_nat (nat (- i)) else string_of_nat (nat i))"

subsection \<open>Commands and transactions (chain/transaction.ts)\<close>

definition MAX_LENGTH_IDENT :: nat where
  "MAX_LENGTH_IDENT = 32"

text \<open>
  The four command interfaces. Every command carries \<^verbatim>\<open>seq\<close> and \<^verbatim>\<open>command\<close>; \<^verbatim>\<open>seq\<close>
  is absent (\<open>None\<close>) until \<^verbatim>\<open>stackTx\<close> numbers the commands. The object that
  \<^verbatim>\<open>proposeModifyStake\<close> casts to \<^verbatim>\<open>CommandModifyStake\<close> also has an \<^verbatim>\<open>ident\<close>.
\<close>

datatype CommandArgs =
    TestLoad int
  | AddPeer string int string
  | RemovePeer string
  | ModifyStake string string int

record Command =
  seq :: "int option"
  command :: string
  args :: CommandArgs

record TransactionStruct =
  ident :: string
  origin :: string
  timestamp :: int
  commands :: "Command list"
  sig :: string

subsection \<open>The wallet (chain/wallet.ts)\<close>

text \<open>
  An opened wallet: the two key buffers. \<open>publicKey\<close> is kept in the unpadded base64url
  text that \<^verbatim>\<open>getPublicKey\<close> returns.
\<close>

record Wallet =
  publicKey :: string
  secretKey :: string

subsection \<open>Collaborators outside the sources\<close>

text \<open>
  The functions the code calls but does not define are parameters of the model:
  \<^verbatim>\<open>ChainUtil.hash\<close>, \<^verbatim>\<open>ChainUtil.verifySignature\<close>, libsodium's detached signing
  (message, secret key; the result in base64url), \<^verbatim>\<open>JSON.stringify\<close> at the two types it
  is used at, \<^verbatim>\<open>nanoid\<close> (by requested size) and the clock \<^verbatim>\<open>Date.now()\<close>.
\<close>

record Env =
  chain_hash :: "string \<Rightarrow> string"
  verifySignature :: "string \<Rightarrow> string \<Rightarrow> string \<Rightarrow> bool"
  crypto_sign_detached :: "string \<Rightarrow> string \<Rightarrow> string"
  stringify_tx :: "TransactionStruct list \<Rightarrow> string"
  stringify_commands :: "Command list \<Rightarrow> string"
  nanoid :: "nat \<Rightarrow> string"
  now :: int

definition getPublicKey :: "Wallet \<Rightarrow> string" where
  "getPublicKey w = publicKey w"

definition sign :: "Env \<Rightarrow> Wallet \<Rightarrow> string \<Rightarrow> string" where
  "sign e w data = crypto_sign_detached e data (secretKey w)"

text \<open>The key pair of the wallet is a pair of the signature scheme.\<close>

definition keypair_ok :: "Env \<Rightarrow> Wallet \<Rightarrow> bool" where
  "keypair_ok e w = (\<forall>m. verifySignature e (getPublicKey w) (sign e w m) m)"

text \<open>The characters \<^verbatim>\<open>nanoid\<close> draws from.\<close>

definition url_alphabet :: "char set" where
  "url_alphabet =
     set ''ABCDEFGHIJKLMNOPQRSTUVWXYZabcdefghijklmnopqrstuvwxyz0123456789_-''"

subsection \<open>The Transaction constructor\<close>

definition Transaction :: "Env \<Rightarrow> Wallet \<Rightarrow> Command list \<Rightarrow> string \<Rightarrow> TransactionStruct" where
  "Transaction e wallet cmds identIn =
     (let ident' = (if length identIn > 0 \<and> length identIn \<le> MAX_LENGTH_IDENT
                    then identIn else nanoid e 8);
          ts = now e
      in \<lparr> ident = ident',
           origin = getPublicKey wallet,
           timestamp = ts,
           commands = cmds,
           sig = sign e wallet (ident' @ string_of_int ts @ stringify_commands e cmds) \<rparr>)"

text \<open>The signature predicate of a transaction: \<open>sig\<close> over ident, timestamp and commands.\<close>

definition tx_signature_ok :: "Env \<Rightarrow> ('a TransactionStruct_scheme) \<Rightarrow> bool" where
  "tx_signature_ok e t =
     verifySignature e (TransactionStruct.origin t) (TransactionStruct.sig t)
       (ident t @ string_of_int (TransactionStruct.timestamp t)
          @ stringify_commands e (commands t))"

subsection \<open>The transaction pool (pool/transaction-pool.ts)\<close>

text \<open>
  \<^verbatim>\<open>add\<close> and \<^verbatim>\<open>clear\<close> do not look into the transactions, so the pool is generic in
  them. \<^verbatim>\<open>add\<close> pushes and returns \<^verbatim>\<open>false\<close>.
\<close>

record 't TransactionPool =
  transactions :: "'t list"

definition pool_new :: "'t TransactionPool" where
  "pool_new = \<lparr> transactions = [] \<rparr>"

definition add :: "'t TransactionPool \<Rightarrow> 't \<Rightarrow> bool \<times> 't TransactionPool" where
  "add p t = (False, p\<lparr> transactions := transactions p @ [t] \<rparr>)"

definition clear :: "'t TransactionPool \<Rightarrow> 't TransactionPool" where
  "clear p = p\<lparr> transactions := [] \<rparr>"

text \<open>
  \<^verbatim>\<open>isValid\<close> reads the properties \<^verbatim>\<open>origin\<close>, \<^verbatim>\<open>signature\<close> and \<^verbatim>\<open>transaction\<close> of its
  argument. The struct type it names comes from a module that is not among the sources, so
  the argument is a transaction object that has these two further properties; the
  serializer of the \<^verbatim>\<open>transaction\<close> payload is a parameter.
\<close>

record 'p PoolTransactionStruct = TransactionStruct +
  signature :: string
  transaction :: 'p

definition isValid :: "Env \<Rightarrow> ('p \<Rightarrow> string) \<Rightarrow> 'p PoolTransactionStruct \<Rightarrow> bool" where
  "isValid e stringify t =
     verifySignature e (TransactionStruct.origin t) (signature t) (stringify (transaction t))"

subsection \<open>Blocks (blockchain/block.ts)\<close>

record VoteStruct =
  type :: int
  origin :: string
  hash :: string
  sig :: string

record BlockStruct =
  version :: int
  timestamp :: int
  previousHash :: string
  hash :: string
  tx :: "TransactionStruct list"
  origin :: string
  sig :: string
  height :: int
  votes :: "VoteStruct list"

text \<open>The fields of a \<^verbatim>\<open>Block\<close> object.\<close>

record Block =
  this_previousBlock :: BlockStruct
  this_version :: int
  this_timestamp :: int
  this_height :: int
  this_previousHash :: string
  this_hash :: string
  this_tx :: "TransactionStruct list"
  this_origin :: string
  this_sig :: string

text \<open>The comparator handed to \<^verbatim>\<open>sort\<close>: \<open>1\<close> when \<open>a\<close> has the greater origin, else \<open>-1\<close>.\<close>

definition compare_origin :: "TransactionStruct \<Rightarrow> TransactionStruct \<Rightarrow> int" where
  "compare_origin a b = (if TransactionStruct.origin a > TransactionStruct.origin b then 1 else - 1)"

text \<open>
  \<^verbatim>\<open>Array.prototype.sort\<close> with a comparator, as an insertion sort: each element in turn goes
  into the sorted prefix, before the first element the comparator puts it below. The
  language leaves the order of elements that the comparator does not order consistently to
  the engine; \<open>compare_origin\<close> answers \<open>-1\<close> both ways for equal origins.
\<close>

fun insert_by :: "('a \<Rightarrow> 'a \<Rightarrow> int) \<Rightarrow> 'a \<Rightarrow> 'a list \<Rightarrow> 'a list" where
  "insert_by cmp x [] = [x]"
| "insert_by cmp x (y # ys) = (if cmp x y < 0 then x # y # ys else y # insert_by cmp x ys)"

definition array_sort :: "('a \<Rightarrow> 'a \<Rightarrow> int) \<Rightarrow> 'a list \<Rightarrow> 'a list" where
  "array_sort cmp xs = foldl (\<lambda>acc x. insert_by cmp x acc) [] xs"

definition block_new :: "Env \<Rightarrow> BlockStruct \<Rightarrow> TransactionStruct list \<Rightarrow> Wallet \<Rightarrow> Block" where
  "block_new e previousBlock txs wallet =
     (let version' = 1;
          timestamp' = now e;
          previousHash' = BlockStruct.hash previousBlock;
          height' = height previousBlock + 1;
          tx' = array_sort compare_origin txs;
          hash' = chain_hash e
            (previousHash' @ string_of_int version' @ string_of_int timestamp'
               @ string_of_int height' @ stringify_tx e tx')
      in \<lparr> this_previousBlock = previousBlock,
           this_version = version',
           this_timestamp = timestamp',
           this_height = height',
           this_previousHash = previousHash',
           this_hash = hash',
           this_tx = tx',
           this_origin = getPublicKey wallet,
           this_sig = sign e wallet hash' \<rparr>)"

definition get :: "Block \<Rightarrow> BlockStruct" where
  "get b =
     \<lparr> version = this_version b,
       timestamp = this_timestamp b,
       previousHash = this_previousHash b,
       hash = this_hash b,
       tx = this_tx b,
       origin = this_origin b,
       sig = this_sig b,
       height = this_height b,
       votes = [] \<rparr>"

definition blockHash :: "Env \<Rightarrow> BlockStruct \<Rightarrow> string" where
  "blockHash e block =
     chain_hash e
       (previousHash block @ string_of_int (version block)
          @ string_of_int (BlockStruct.timestamp block)
          @ string_of_int (height block) @ stringify_tx e (tx block))"

definition verifyBlock :: "Env \<Rightarrow> BlockStruct \<Rightarrow> bool" where
  "verifyBlock e block =
     verifySignature e (BlockStruct.origin block) (BlockStruct.sig block) (BlockStruct.hash block)"

text \<open>
  A chain produced by the constructor: starting from a block, each step builds the next
  block on the last one, from that step's clock, transactions and wallet.
\<close>

fun produce :: "BlockStruct \<Rightarrow> (Env \<times> TransactionStruct list \<times> Wallet) list \<Rightarrow> BlockStruct list" where
  "produce g [] = [g]"
| "produce g ((e, txs, w) # steps) = g # produce (get (block_new e g txs w)) steps"

text \<open>Ascending by origin, and strictly ascending: sorted with one transaction per origin.\<close>

definition sorted_by_origin :: "TransactionStruct list \<Rightarrow> bool" where
  "sorted_by_origin ts = sorted (map TransactionStruct.origin ts)"

definition one_tx_per_origin :: "TransactionStruct list \<Rightarrow> bool" where
  "one_tx_per_origin ts = distinct (map TransactionStruct.origin ts)"

subsection \<open>Stacking transactions (net/server.ts)\<close>

text \<open>\<^verbatim>\<open>commands.map((c) => { c.seq = s; s++; return c; })\<close>\<close>

fun number_from :: "int \<Rightarrow> Command list \<Rightarrow> Command list" where
  "number_from s [] = []"
| "number_from s (c # cs) = c\<lparr> seq := Some s \<rparr> # number_from (s + 1) cs"

text \<open>
  Modelled from the spec: \<^verbatim>\<open>BlockFactory.stack\<close>, which \<^verbatim>\<open>Server.stackTx\<close> calls and which
  is not among the sources. It builds a transaction signed by the local wallet from the
  commands and appends it to the pool; it returns the transaction's ident, or a failure
  indicator (\<open>None\<close>, JavaScript's \<^verbatim>\<open>false\<close>) if another local transaction with the same
  origin and ident is already pending.
\<close>

definition stack ::
  "Env \<Rightarrow> Wallet \<Rightarrow> TransactionStruct TransactionPool \<Rightarrow> Command list \<Rightarrow> string
     \<Rightarrow> string option \<times> TransactionStruct TransactionPool" where
  "stack e wallet pool cmds identIn =
     (let t = Transaction e wallet cmds identIn
      in if list_ex (\<lambda>p. TransactionStruct.origin p = TransactionStruct.origin t
                         \<and> ident p = ident t) (transactions pool)
         then (None, pool)
         else (Some (ident t), snd (add pool t)))"

text \<open>\<^verbatim>\<open>stackTx\<close>: \<^verbatim>\<open>!i\<close> holds for \<^verbatim>\<open>false\<close> and for the empty string.\<close>

definition stackTx ::
  "Env \<Rightarrow> Wallet \<Rightarrow> TransactionStruct TransactionPool \<Rightarrow> Command list \<Rightarrow> string
     \<Rightarrow> string option \<times> TransactionStruct TransactionPool" where
  "stackTx e wallet pool cmds identIn =
     (let (i, pool') = stack e wallet pool (number_from 1 cmds) identIn
      in if i = None \<or> i = Some [] then (None, pool') else (i, pool'))"

subsection \<open>The stake credits (net/server.ts)\<close>

text \<open>
  A \<^verbatim>\<open>Map\<close> keeps its entries in insertion order; \<^verbatim>\<open>set\<close> on a present key replaces the
  value in place and on a new key appends, as \<open>AList.update\<close> does.
\<close>

definition map_has :: "('k \<times> 'v) list \<Rightarrow> 'k \<Rightarrow> bool" where
  "map_has m k = (map_of m k \<noteq> None)"

definition map_set :: "('k \<times> 'v) list \<Rightarrow> 'k \<Rightarrow> 'v \<Rightarrow> ('k \<times> 'v) list" where
  "map_set m k v = AList.update k v m"

definition map_values :: "('k \<times> 'v) list \<Rightarrow> 'v list" where
  "map_values m = map snd m"

text \<open>\<^verbatim>\<open>mapStakeCredit.get(k) || 0\<close>\<close>

definition credit_of :: "(string \<times> int) list \<Rightarrow> string \<Rightarrow> int" where
  "credit_of m k = (case map_of m k of None \<Rightarrow> 0 | Some v \<Rightarrow> v)"

text \<open>\<^verbatim>\<open>[...m.values()].reduce((p, c) => p + c, 0)\<close>\<close>

definition credit_sum :: "(string \<times> int) list \<Rightarrow> int" where
  "credit_sum m = foldl (\<lambda>p c. p + c) 0 (map_values m)"

text \<open>
  The part of the server that \<^verbatim>\<open>proposeModifyStake\<close> touches; \<open>timeoutModifyStake\<close> is the
  delay of the armed timer, if one is armed.
\<close>

record Server =
  mapModifyStake :: "(string \<times> Command) list"
  mapStakeCredit :: "(string \<times> int) list"
  timeoutModifyStake :: "nat option"

text \<open>What the blockchain, the network and the configuration answer during a call.\<close>

record Surroundings =
  getQuorum :: real
  getArrayNetwork_length :: nat
  network_p2p_interval_ms :: nat

text \<open>The value of \<^verbatim>\<open>Blockchain.COMMAND_MODIFY_STAKE\<close>, as the test suite spells the command.\<close>

definition COMMAND_MODIFY_STAKE :: string where
  "COMMAND_MODIFY_STAKE = ''modifyStake''"

text \<open>\<^verbatim>\<open>[forPublicKey, ident, stake].join('')\<close>\<close>

definition stake_key :: "string \<Rightarrow> string \<Rightarrow> int \<Rightarrow> string" where
  "stake_key forPublicKey identIn stake = forPublicKey @ identIn @ string_of_int stake"

text \<open>The two floors of the admission test, on the decremented credit and on the table.\<close>

definition admits :: "real \<Rightarrow> int \<Rightarrow> (string \<times> int) list \<Rightarrow> bool" where
  "admits quorum credit m =
     (real_of_int credit > quorum * (- 0.5) \<and> real_of_int (credit_sum m) > quorum * (- 1))"

definition proposeModifyStake ::
  "Surroundings \<Rightarrow> string \<Rightarrow> string \<Rightarrow> int \<Rightarrow> Server \<Rightarrow> Server" where
  "proposeModifyStake env forPublicKey identIn stake s =
     (let k = stake_key forPublicKey identIn stake
      in if map_has (mapModifyStake s) k then s
         else
           let cmd = \<lparr> seq = None, command = COMMAND_MODIFY_STAKE,
                       args = ModifyStake forPublicKey identIn stake \<rparr>;
               credit = credit_of (mapStakeCredit s) forPublicKey - 1;
               quorum = getQuorum env;
               s' = (if admits quorum credit (mapStakeCredit s)
                     then s\<lparr> mapModifyStake := map_set (mapModifyStake s) k cmd,
                             mapStakeCredit := map_set (mapStakeCredit s) forPublicKey credit \<rparr>
                     else s)
           in s'\<lparr> timeoutModifyStake :=
                    Some (getArrayNetwork_length env * network_p2p_interval_ms env) \<rparr>)"

definition incStakeCredit :: "string \<Rightarrow> Server \<Rightarrow> Server" where
  "incStakeCredit pk s =
     s\<lparr> mapStakeCredit := map_set (mapStakeCredit s) pk (credit_of (mapStakeCredit s) pk + 1) \<rparr>"

text \<open>The timer's callback: the pending commands are stacked and the map starts anew.\<close>

definition onTimeoutModifyStake ::
  "Env \<Rightarrow> Wallet \<Rightarrow> Server \<times> TransactionStruct TransactionPool
     \<Rightarrow> Server \<times> TransactionStruct TransactionPool" where
  "onTimeoutModifyStake e wallet sp =
     (let (s, pool) = sp;
          r = stackTx e wallet pool (map_values (mapModifyStake s)) []
      in (s\<lparr> mapModifyStake := [], timeoutModifyStake := None \<rparr>, snd r))"

subsection \<open>A small instance of the parameters\<close>

text \<open>
  Used to run the definitions on concrete inputs: a signature is the key followed by the
  message, so a wallet's keys match when they are equal.
\<close>

definition demo_env :: Env where
  "demo_env =
     \<lparr> chain_hash = rev,
       verifySignature = (\<lambda>pk sg m. sg = pk @ m),
       crypto_sign_detached = (\<lambda>m sk. sk @ m),
       stringify_tx = (\<lambda>ts. concat (map (\<lambda>t. ident t @ '';'') ts)),
       stringify_commands = (\<lambda>cs. concat (map (\<lambda>c. command c @ '';'') cs)),
       nanoid = (\<lambda>n. replicate n CHR ''A''),
       now = 1700000000000 \<rparr>"

definition demo_wallet :: Wallet where
  "demo_wallet = \<lparr> publicKey = ''PK1'', secretKey = ''PK1'' \<rparr>"

definition demo_tx :: "string \<Rightarrow> string \<Rightarrow> TransactionStruct" where
  "demo_tx o' i = \<lparr> ident = i, origin = o', timestamp = 5, commands = [], sig = ''s'' \<rparr>"

definition demo_genesis :: BlockStruct where
  "demo_genesis =
     \<lparr> version = 1, timestamp = 0, previousHash = [], hash = ''G'', tx = [],
       origin = ''0'', sig = ''0'', height = 0, votes = [] \<rparr>"

definition demo_surroundings :: Surroundings where
  "demo_surroundings = \<lparr> getQuorum = 4, getArrayNetwork_length = 5, network_p2p_interval_ms = 1000 \<rparr>"

definition demo_server :: Server where
  "demo_server = \<lparr> mapModifyStake = [], mapStakeCredit = [], timeoutModifyStake = None \<rparr>"

subsection \<open>Runs of calls on the stake credits\<close>

text \<open>
  A run of \<^verbatim>\<open>proposeModifyStake\<close> and \<^verbatim>\<open>incStakeCredit\<close> calls between two firings of the
  timer, and the number of calls for one candidate in it that changed the credit table.
\<close>

datatype Call = ProposeModifyStake Surroundings string string int | IncStakeCredit string

fun call :: "Call \<Rightarrow> Server \<Rightarrow> Server" where
  "call (ProposeModifyStake env forPublicKey identIn stake) s =
     proposeModifyStake env forPublicKey identIn stake s"
| "call (IncStakeCredit pk) s = incStakeCredit pk s"

fun proposes :: "string \<Rightarrow> string \<Rightarrow> int \<Rightarrow> Call \<Rightarrow> bool" where
  "proposes pk i st (ProposeModifyStake env pk' i' st') = (pk' = pk \<and> i' = i \<and> st' = st)"
| "proposes pk i st (IncStakeCredit pk') = False"

fun decrements :: "string \<Rightarrow> string \<Rightarrow> int \<Rightarrow> Server \<Rightarrow> Call list \<Rightarrow> nat" where
  "decrements pk i st s [] = 0"
| "decrements pk i st s (c # cs) =
     (if proposes pk i st c \<and> mapStakeCredit (call c s) \<noteq> mapStakeCredit s then 1 else 0)
       + decrements pk i st (call c s) cs"

subsection \<open>Concrete blocks and transactions\<close>

text \<open>
  A block whose transactions are not in origin order, hashed by \<open>blockHash\<close> and signed by
  the wallet.
\<close>

definition demo_unsorted_block :: BlockStruct where
  "demo_unsorted_block =
     (let b = \<lparr> version = 1, timestamp = 7, previousHash = ''G'', hash = [],
                tx = [demo_tx ''B'' ''x'', demo_tx ''A'' ''y''],
                origin = getPublicKey demo_wallet, sig = [], height = 1, votes = [] \<rparr>;
          h = blockHash demo_env b
      in b\<lparr> hash := h, sig := sign demo_env demo_wallet h \<rparr>)"

text \<open>
  The transaction the constructor builds for the wallet, as an object that also has the
  two properties \<^verbatim>\<open>isValid\<close> reads.
\<close>

definition demo_pool_tx :: "Command list PoolTransactionStruct" where
  "demo_pool_tx =
     TransactionStruct.extend (Transaction demo_env demo_wallet [] ''t1'')
       (PoolTransactionStruct.fields ''x'' [])"

subsection \<open>Pending candidates\<close>

text \<open>
  A candidate is pending when the modify-stake map holds a command with its public key,
  ident and stake.
\<close>

definition candidate_pending :: "Server \<Rightarrow> string \<Rightarrow> string \<Rightarrow> int \<Rightarrow> bool" where
  "candidate_pending s pk i st =
     list_ex (\<lambda>c. args c = ModifyStake pk i st) (map_values (mapModifyStake s))"

text \<open>
  A public key of 43 characters, surroundings with quorum 10, and the server after the
  first proposal for that key with ident \<open>x1\<close> and stake \<open>2\<close>.
\<close>

definition demo_peer :: string where
  "demo_peer = ''0123456789abcdefghijABCDEFGHIJ0123456789_-A''"

definition demo_surroundings10 :: Surroundings where
  "demo_surroundings10 =
     \<lparr> getQuorum = 10, getArrayNetwork_length = 5, network_p2p_interval_ms = 1000 \<rparr>"

definition demo_server_x1 :: Server where
  "demo_server_x1 = proposeModifyStake demo_surroundings10 demo_peer ''x1'' 2 demo_server"

section \<open>Properties\<close>

subsection \<open>The parameters' instance\<close>

lemma demo_keypair_ok: "keypair_ok demo_env demo_wallet"
  by (simp add: keypair_ok_def demo_env_def demo_wallet_def getPublicKey_def sign_def)

lemma demo_nanoid: "nanoid demo_env 8 = ''AAAAAAAA''"
  by (simp add: demo_env_def eval_nat_numeral)

lemma demo_nanoid_url: "set (nanoid demo_env 8) \<subseteq> url_alphabet"
  by (simp add: demo_nanoid url_alphabet_def)

lemma demo_nanoid_length: "length (nanoid demo_env 8) = 8"
  by (simp add: demo_nanoid)

lemma demo_tx_origin: "TransactionStruct.origin (demo_tx a i) = a"
  by (simp add: demo_tx_def)

subsection \<open>The block constructor\<close>

lemma block_new_links:
  "height (get (block_new e P txs w)) = height P + 1"
  "previousHash (get (block_new e P txs w)) = BlockStruct.hash P"
  by (simp_all add: get_def block_new_def Let_def)

lemma block_new_tx: "tx (get (block_new e P txs w)) = array_sort compare_origin txs"
  by (simp add: get_def block_new_def Let_def)

text \<open>
  C1. The block built by the constructor has as hash the hash of the concatenation of its
  previous hash, version, timestamp, height and the serialized transaction list, where the
  list is the sorted one; \<open>blockHash\<close> computes the same concatenation on any block, and on
  the built block it gives the block's hash.
\<close>

theorem block_hash_formula:
  "BlockStruct.hash (get (block_new e P txs w)) =
     chain_hash e
       (previousHash (get (block_new e P txs w))
          @ string_of_int (version (get (block_new e P txs w)))
          @ string_of_int (BlockStruct.timestamp (get (block_new e P txs w)))
          @ string_of_int (height (get (block_new e P txs w)))
          @ stringify_tx e (tx (get (block_new e P txs w))))
   \<and> tx (get (block_new e P txs w)) = array_sort compare_origin txs
   \<and> blockHash e (get (block_new e P txs w)) = BlockStruct.hash (get (block_new e P txs w))
   \<and> blockHash e b =
       chain_hash e
         (previousHash b @ string_of_int (version b) @ string_of_int (BlockStruct.timestamp b)
            @ string_of_int (height b) @ stringify_tx e (tx b))"
  by (simp add: get_def block_new_def blockHash_def Let_def)

subsection \<open>Chains of constructed blocks\<close>

lemma produce_length: "length (produce g steps) = Suc (length steps)"
  by (induction steps arbitrary: g) auto

lemma produce_hd: "produce g steps ! 0 = g"
  by (cases steps) auto

lemma produce_links:
  "h < length steps \<Longrightarrow>
     previousHash (produce g steps ! Suc h) = BlockStruct.hash (produce g steps ! h)
     \<and> height (produce g steps ! Suc h) = height (produce g steps ! h) + 1"
proof (induction steps arbitrary: g h)
  case Nil
  then show ?case by simp
next
  case (Cons st steps)
  obtain e txs w where st: "st = (e, txs, w)" by (cases st) auto
  show ?case
  proof (cases h)
    case 0
    then show ?thesis using st by (simp add: produce_hd block_new_links)
  next
    case (Suc h')
    with Cons.prems have "h' < length steps" by simp
    from Cons.IH [OF this] show ?thesis using st Suc by simp
  qed
qed

lemma produce_height:
  "h \<le> length steps \<Longrightarrow> height (produce g steps ! h) = height g + int h"
proof (induction h)
  case 0
  then show ?case by (simp add: produce_hd)
next
  case (Suc h)
  then show ?case using produce_links [of h steps g] by simp
qed

text \<open>
  C2. A block built by the constructor from \<open>P\<close> has height \<open>height P + 1\<close> and previous
  hash \<open>hash P\<close>; in a chain produced by the constructor, every block at a position
  \<open>h > 0\<close> has the hash of the block at \<open>h - 1\<close> as previous hash and its height plus one
  as height (so the height is the position when the chain starts at height \<open>0\<close>).
\<close>

theorem constructor_links_to_previous:
  "(height (get (block_new e P txs w)) = height P + 1
      \<and> previousHash (get (block_new e P txs w)) = BlockStruct.hash P)
   \<and> (\<forall>h. 0 < h \<and> h < length (produce g steps) \<longrightarrow>
         previousHash (produce g steps ! h) = BlockStruct.hash (produce g steps ! (h - 1))
         \<and> height (produce g steps ! h) = height (produce g steps ! (h - 1)) + 1
         \<and> height (produce g steps ! h) = height g + int h)"
proof (intro conjI allI impI)
  fix h assume h: "0 < h \<and> h < length (produce g steps)"
  then obtain h' where h': "h = Suc h'" "h' < length steps"
    by (cases h) (auto simp: produce_length)
  from produce_links [OF h'(2), of g]
  show "previousHash (produce g steps ! h) = BlockStruct.hash (produce g steps ! (h - 1))"
    and "height (produce g steps ! h) = height (produce g steps ! (h - 1)) + 1"
    using h' by simp_all
  show "height (produce g steps ! h) = height g + int h"
    using h produce_height [of h steps g] by (simp add: produce_length)
qed (simp_all add: block_new_links)

text \<open>The theorem at a chain of two blocks on the genesis block, at position 2.\<close>

theorem constructor_links_to_previous_witness:
  "(0::nat) < 2 \<and> 2 < length (produce demo_genesis
       [(demo_env, [], demo_wallet), (demo_env, [demo_tx ''A'' ''x''], demo_wallet)])
   \<and> height (produce demo_genesis
       [(demo_env, [], demo_wallet), (demo_env, [demo_tx ''A'' ''x''], demo_wallet)] ! 2) = 2
   \<and> previousHash (produce demo_genesis
       [(demo_env, [], demo_wallet), (demo_env, [demo_tx ''A'' ''x''], demo_wallet)] ! 2)
     = BlockStruct.hash (produce demo_genesis
       [(demo_env, [], demo_wallet), (demo_env, [demo_tx ''A'' ''x''], demo_wallet)] ! 1)"
proof -
  let ?c = "produce demo_genesis
       [(demo_env, [], demo_wallet), (demo_env, [demo_tx ''A'' ''x''], demo_wallet)]"
  have l: "(0::nat) < 2 \<and> 2 < length ?c" by (simp add: produce_length)
  have g: "height demo_genesis = 0" by (simp add: demo_genesis_def)
  from constructor_links_to_previous [of _ _ _ _ demo_genesis
       "[(demo_env, [], demo_wallet), (demo_env, [demo_tx ''A'' ''x''], demo_wallet)]"] l
  have "previousHash (?c ! 2) = BlockStruct.hash (?c ! (2 - 1))
         \<and> height (?c ! 2) = height (?c ! (2 - 1)) + 1
         \<and> height (?c ! 2) = height demo_genesis + int 2" by blast
  with l g show ?thesis by simp
qed

subsection \<open>The order of a block's transactions\<close>

lemma insert_by_mset: "mset (insert_by cmp x ys) = add_mset x (mset ys)"
  by (induction ys) auto

lemma array_sort_fold_mset:
  "mset (foldl (\<lambda>acc x. insert_by cmp x acc) acc xs) = mset acc + mset xs"
  by (induction xs arbitrary: acc) (auto simp: insert_by_mset)

lemma array_sort_mset: "mset (array_sort cmp xs) = mset xs"
  by (simp add: array_sort_def array_sort_fold_mset)

lemma insert_by_set: "set (insert_by cmp x ys) = insert x (set ys)"
  by (induction ys) auto

lemma insert_by_origin_sorted:
  "sorted_by_origin ys \<Longrightarrow> sorted_by_origin (insert_by compare_origin x ys)"
  by (induction ys) (auto simp: sorted_by_origin_def compare_origin_def insert_by_set)

lemma array_sort_fold_sorted:
  "sorted_by_origin acc \<Longrightarrow>
     sorted_by_origin (foldl (\<lambda>acc x. insert_by compare_origin x acc) acc xs)"
  by (induction xs arbitrary: acc) (auto simp: insert_by_origin_sorted)

lemma array_sort_sorted: "sorted_by_origin (array_sort compare_origin xs)"
  unfolding array_sort_def
  by (rule array_sort_fold_sorted) (simp add: sorted_by_origin_def)

lemma one_tx_per_origin_mset:
  "mset xs = mset ys \<Longrightarrow> one_tx_per_origin xs = one_tx_per_origin ys"
proof -
  assume "mset xs = mset ys"
  then have "mset (map TransactionStruct.origin xs) = mset (map TransactionStruct.origin ys)"
    by (metis mset_map)
  then show ?thesis unfolding one_tx_per_origin_def by (rule mset_eq_imp_distinct_iff)
qed

text \<open>
  C3, as stated, fails. The constructor sorts but drops nothing, so two transactions of one
  origin both stay in the block; and \<open>verifyBlock\<close> checks only the signature over the
  hash, so it accepts a block whose transactions are not in origin order.
\<close>

theorem block_tx_invariant_counterexample:
  "\<not> one_tx_per_origin
       (tx (get (block_new demo_env demo_genesis
                   [demo_tx ''A'' ''x'', demo_tx ''A'' ''y''] demo_wallet)))
   \<and> verifyBlock demo_env demo_unsorted_block
   \<and> \<not> sorted_by_origin (tx demo_unsorted_block)"
proof (intro conjI)
  show "\<not> one_tx_per_origin
       (tx (get (block_new demo_env demo_genesis
                   [demo_tx ''A'' ''x'', demo_tx ''A'' ''y''] demo_wallet)))"
    by (simp add: block_new_tx array_sort_def compare_origin_def demo_tx_origin
        one_tx_per_origin_def)
  show "verifyBlock demo_env demo_unsorted_block"
    by (simp add: verifyBlock_def demo_unsorted_block_def Let_def demo_env_def
        demo_wallet_def getPublicKey_def sign_def blockHash_def)
  show "\<not> sorted_by_origin (tx demo_unsorted_block)"
    by (simp add: demo_unsorted_block_def Let_def sorted_by_origin_def demo_tx_origin)
qed

text \<open>
  C3, amended. For every block produced by the constructor, the transactions are the given
  ones, rearranged in ascending order of origin (lexicographic on the string); when the
  given transactions have pairwise different origins, so has the block, and the order is
  strictly ascending. \<open>verifyBlock\<close> does not look at the order of the transactions: its
  verdict is the same for every rearrangement of them.
\<close>

theorem block_tx_sorted_by_origin:
  "sorted_by_origin (tx (get (block_new e P txs w)))
   \<and> mset (tx (get (block_new e P txs w))) = mset txs
   \<and> (one_tx_per_origin txs \<longrightarrow>
        one_tx_per_origin (tx (get (block_new e P txs w)))
        \<and> sorted_wrt (\<lambda>a b. TransactionStruct.origin a < TransactionStruct.origin b)
            (tx (get (block_new e P txs w))))
   \<and> (mset ts = mset (tx b) \<longrightarrow> verifyBlock e (b\<lparr> tx := ts \<rparr>) = verifyBlock e b)"
proof (intro conjI impI)
  show s: "sorted_by_origin (tx (get (block_new e P txs w)))"
    by (simp add: block_new_tx array_sort_sorted)
  show m: "mset (tx (get (block_new e P txs w))) = mset txs"
    by (simp add: block_new_tx array_sort_mset)
  show "verifyBlock e (b\<lparr> tx := ts \<rparr>) = verifyBlock e b"
    by (simp add: verifyBlock_def)
  assume u: "one_tx_per_origin txs"
  with m show d: "one_tx_per_origin (tx (get (block_new e P txs w)))"
    using one_tx_per_origin_mset by blast
  have "sorted_wrt (<) (map TransactionStruct.origin (tx (get (block_new e P txs w))))"
    using s d unfolding sorted_by_origin_def one_tx_per_origin_def
    by (simp add: strict_sorted_iff)
  then show "sorted_wrt (\<lambda>a b. TransactionStruct.origin a < TransactionStruct.origin b)
            (tx (get (block_new e P txs w)))"
    by (simp add: sorted_wrt_map)
qed

text \<open>The theorem at two transactions given in descending order of origin.\<close>

theorem block_tx_sorted_by_origin_witness:
  "one_tx_per_origin [demo_tx ''B'' ''x'', demo_tx ''A'' ''y'']
   \<and> mset [demo_tx ''A'' ''y'', demo_tx ''B'' ''x''] = mset (tx demo_unsorted_block)
   \<and> tx (get (block_new demo_env demo_genesis [demo_tx ''B'' ''x'', demo_tx ''A'' ''y''] demo_wallet))
       = [demo_tx ''A'' ''y'', demo_tx ''B'' ''x'']
   \<and> sorted_wrt (\<lambda>a b. TransactionStruct.origin a < TransactionStruct.origin b)
       (tx (get (block_new demo_env demo_genesis [demo_tx ''B'' ''x'', demo_tx ''A'' ''y''] demo_wallet)))
   \<and> verifyBlock demo_env
       (demo_unsorted_block\<lparr> tx := [demo_tx ''A'' ''y'', demo_tx ''B'' ''x''] \<rparr>)
       = verifyBlock demo_env demo_unsorted_block"
proof -
  have u: "one_tx_per_origin [demo_tx ''B'' ''x'', demo_tx ''A'' ''y'']"
    by (simp add: one_tx_per_origin_def demo_tx_origin)
  have p: "mset [demo_tx ''A'' ''y'', demo_tx ''B'' ''x''] = mset (tx demo_unsorted_block)"
    by (simp add: demo_unsorted_block_def Let_def)
  have v: "tx (get (block_new demo_env demo_genesis [demo_tx ''B'' ''x'', demo_tx ''A'' ''y''] demo_wallet))
       = [demo_tx ''A'' ''y'', demo_tx ''B'' ''x'']"
    by (simp add: block_new_tx array_sort_def compare_origin_def demo_tx_origin)
  from block_tx_sorted_by_origin [of demo_env demo_genesis
      "[demo_tx ''B'' ''x'', demo_tx ''A'' ''y'']" demo_wallet
      "[demo_tx ''A'' ''y'', demo_tx ''B'' ''x'']" demo_unsorted_block] u p v
  show ?thesis by simp
qed

subsection \<open>Signatures of blocks\<close>

text \<open>
  C7. For a wallet whose key pair is one of the signature scheme, the block built by the
  constructor carries a signature of its origin over its hash, which the constructor has
  just computed, so \<open>verifyBlock\<close> accepts it; and \<open>verifyBlock\<close> returns true exactly when
  the signature of the block's origin verifies over the block's hash.
\<close>

theorem block_signature_verifies:
  assumes "keypair_ok e w"
  shows "verifySignature e (BlockStruct.origin (get (block_new e P txs w)))
           (BlockStruct.sig (get (block_new e P txs w)))
           (BlockStruct.hash (get (block_new e P txs w)))
         \<and> verifyBlock e (get (block_new e P txs w))
         \<and> (verifyBlock e b
              \<longleftrightarrow> verifySignature e (BlockStruct.origin b) (BlockStruct.sig b) (BlockStruct.hash b))"
  using assms by (simp add: keypair_ok_def verifyBlock_def get_def block_new_def Let_def)

text \<open>The theorem at a block built on the genesis block by the wallet.\<close>

theorem block_signature_verifies_witness:
  "keypair_ok demo_env demo_wallet
   \<and> verifyBlock demo_env (get (block_new demo_env demo_genesis [demo_tx ''A'' ''x''] demo_wallet))"
  using block_signature_verifies [OF demo_keypair_ok, of demo_genesis "[demo_tx ''A'' ''x'']"]
    demo_keypair_ok by simp

text \<open>
  C10. The struct that \<open>get\<close> returns for a block built by the constructor has no votes,
  whatever the constructor was given.
\<close>

theorem fresh_block_has_no_votes: "votes (get (block_new e P txs w)) = []"
  by (simp add: get_def)

subsection \<open>Transactions\<close>

lemma Transaction_signed:
  "keypair_ok e w \<Longrightarrow> tx_signature_ok e (Transaction e w cmds i)"
  by (simp add: keypair_ok_def tx_signature_ok_def Transaction_def Let_def)

lemma Transaction_ident_nonempty:
  "length (nanoid e 8) = 8 \<Longrightarrow> ident (Transaction e w cmds i) \<noteq> []"
  by (auto simp: Transaction_def Let_def)

lemma Transaction_origin: "TransactionStruct.origin (Transaction e w cmds i) = getPublicKey w"
  by (simp add: Transaction_def Let_def)

text \<open>
  C4, as stated, fails in its second half. \<open>isValid\<close> verifies the property
  \<^verbatim>\<open>signature\<close> over the serialized property \<^verbatim>\<open>transaction\<close>, not \<^verbatim>\<open>sig\<close> over ident,
  timestamp and commands: the transaction that the constructor builds satisfies the
  signature predicate, and \<open>isValid\<close> rejects the object that carries it.
\<close>

theorem isValid_counterexample:
  "TransactionStruct.truncate demo_pool_tx = Transaction demo_env demo_wallet [] ''t1''
   \<and> tx_signature_ok demo_env demo_pool_tx
   \<and> \<not> isValid demo_env (stringify_commands demo_env) demo_pool_tx"
  by (simp add: demo_pool_tx_def TransactionStruct.extend_def TransactionStruct.truncate_def
      PoolTransactionStruct.fields_def tx_signature_ok_def isValid_def Transaction_def Let_def
      demo_env_def demo_wallet_def getPublicKey_def sign_def MAX_LENGTH_IDENT_def)

text \<open>
  C4, amended. For every transaction built by the constructor with a wallet whose key pair
  is one of the signature scheme, the signature \<^verbatim>\<open>sig\<close> of the origin verifies over ident,
  timestamp and serialized commands. \<open>isValid\<close> returns true exactly when the property
  \<^verbatim>\<open>signature\<close> verifies for the origin over the serialized property \<^verbatim>\<open>transaction\<close>; its
  verdict does not depend on \<^verbatim>\<open>ident\<close>, \<^verbatim>\<open>timestamp\<close>, \<^verbatim>\<open>commands\<close> or \<^verbatim>\<open>sig\<close>.
\<close>

theorem transaction_signature_and_isValid:
  assumes "keypair_ok e w"
  shows "tx_signature_ok e (Transaction e w cmds i)
       \<and> (isValid e stringify t \<longleftrightarrow>
            verifySignature e (TransactionStruct.origin t) (signature t)
              (stringify (transaction t)))
       \<and> isValid e stringify (t\<lparr> ident := i', TransactionStruct.timestamp := ts', commands := c',
                                 TransactionStruct.sig := s' \<rparr>)
           = isValid e stringify t"
  using assms by (simp add: Transaction_signed isValid_def)

text \<open>The theorem at the wallet and an ident of two characters.\<close>

theorem transaction_signature_and_isValid_witness:
  "keypair_ok demo_env demo_wallet
   \<and> tx_signature_ok demo_env (Transaction demo_env demo_wallet [] ''t1'')"
  using transaction_signature_and_isValid
      [of demo_env demo_wallet "[]" "''t1''" "stringify_commands demo_env" demo_pool_tx,
        OF demo_keypair_ok]
    demo_keypair_ok by blast

text \<open>
  C9. The constructor is total in the ident. An ident of 1 to 32 characters is kept as it
  is, whatever its characters; an empty ident and an ident of more than 32 characters are
  replaced by the id that \<^verbatim>\<open>nanoid(8)\<close> returns, which has 8 characters.
\<close>

theorem transaction_ident_rule:
  assumes "length (nanoid e 8) = 8"
  shows "(1 \<le> length i \<and> length i \<le> 32 \<longrightarrow> ident (Transaction e w cmds i) = i)
       \<and> (i = [] \<or> 32 < length i \<longrightarrow>
            ident (Transaction e w cmds i) = nanoid e 8
            \<and> length (ident (Transaction e w cmds i)) = 8)"
  using assms by (auto simp: Transaction_def Let_def MAX_LENGTH_IDENT_def)

text \<open>
  The theorem at an ident with a blank and an exclamation mark, at the empty ident and at
  an ident of 33 characters.
\<close>

theorem transaction_ident_rule_witness:
  "length (nanoid demo_env 8) = 8
   \<and> ident (Transaction demo_env demo_wallet [] ''a b!'') = ''a b!''
   \<and> ident (Transaction demo_env demo_wallet [] []) = ''AAAAAAAA''
   \<and> ident (Transaction demo_env demo_wallet [] (replicate 33 CHR ''x'')) = ''AAAAAAAA''"
proof -
  have n: "length (nanoid demo_env 8) = 8" by (simp add: demo_env_def)
  have v: "nanoid demo_env 8 = ''AAAAAAAA''" by (simp add: demo_env_def eval_nat_numeral)
  from transaction_ident_rule [OF n, of "''a b!''" demo_wallet "[]"]
    transaction_ident_rule [OF n, of "[]" demo_wallet "[]"]
    transaction_ident_rule [OF n, of "replicate 33 CHR ''x''" demo_wallet "[]"]
  show ?thesis using n v by simp
qed

subsection \<open>Stacking\<close>

text \<open>
  C5. Given that \<^verbatim>\<open>nanoid(8)\<close> returns 8 characters of its URL-safe alphabet: stacking
  returns the ident of the transaction it builds and appends the transaction to the pool
  when no pending transaction has the same origin and ident, and returns the failure
  indicator, leaving the pool as it is, when one has; for an empty ident the transaction's
  ident is the generated id of 8 URL-safe characters.
\<close>

theorem stackTx_returns_ident_or_failure:
  assumes "length (nanoid e 8) = 8" and "set (nanoid e 8) \<subseteq> url_alphabet"
  shows
    "((\<forall>p \<in> set (transactions pool).
         \<not> (TransactionStruct.origin p = getPublicKey w
            \<and> ident p = ident (Transaction e w (number_from 1 cmds) i)))
       \<longrightarrow> stackTx e w pool cmds i =
             (Some (ident (Transaction e w (number_from 1 cmds) i)),
              pool\<lparr> transactions :=
                      transactions pool @ [Transaction e w (number_from 1 cmds) i] \<rparr>))
     \<and> ((\<exists>p \<in> set (transactions pool).
            TransactionStruct.origin p = getPublicKey w
            \<and> ident p = ident (Transaction e w (number_from 1 cmds) i))
          \<longrightarrow> stackTx e w pool cmds i = (None, pool))
     \<and> (i = [] \<longrightarrow>
           ident (Transaction e w (number_from 1 cmds) i) = nanoid e 8
           \<and> length (ident (Transaction e w (number_from 1 cmds) i)) = 8
           \<and> set (ident (Transaction e w (number_from 1 cmds) i)) \<subseteq> url_alphabet)"
proof (intro conjI impI)
  let ?t = "Transaction e w (number_from 1 cmds) i"
  have ne: "ident ?t \<noteq> []" using assms(1) by (rule Transaction_ident_nonempty)
  {
    assume "\<forall>p \<in> set (transactions pool).
         \<not> (TransactionStruct.origin p = getPublicKey w \<and> ident p = ident ?t)"
    then have "\<not> list_ex (\<lambda>p. TransactionStruct.origin p = TransactionStruct.origin ?t
                         \<and> ident p = ident ?t) (transactions pool)"
      by (simp add: list_ex_iff Transaction_origin)
    then show "stackTx e w pool cmds i =
             (Some (ident ?t), pool\<lparr> transactions := transactions pool @ [?t] \<rparr>)"
      using ne by (simp add: stackTx_def stack_def Let_def add_def)
  }
  {
    assume "\<exists>p \<in> set (transactions pool).
            TransactionStruct.origin p = getPublicKey w \<and> ident p = ident ?t"
    then have "list_ex (\<lambda>p. TransactionStruct.origin p = TransactionStruct.origin ?t
                         \<and> ident p = ident ?t) (transactions pool)"
      by (simp add: list_ex_iff Transaction_origin)
    then show "stackTx e w pool cmds i = (None, pool)"
      by (simp add: stackTx_def stack_def Let_def)
  }
  {
    assume "i = []"
    then show c: "ident ?t = nanoid e 8" by (simp add: Transaction_def Let_def)
    then show "length (ident ?t) = 8" "set (ident ?t) \<subseteq> url_alphabet"
      using assms by simp_all
  }
qed

text \<open>
  The theorem at the empty pool with an empty ident and with the ident \<open>job-1\<close>, and at the
  pool in which \<open>job-1\<close> is pending.
\<close>

theorem stackTx_returns_ident_or_failure_witness:
  "length (nanoid demo_env 8) = 8 \<and> set (nanoid demo_env 8) \<subseteq> url_alphabet
   \<and> fst (stackTx demo_env demo_wallet pool_new [] []) = Some ''AAAAAAAA''
   \<and> fst (stackTx demo_env demo_wallet pool_new [] ''job-1'') = Some ''job-1''
   \<and> fst (stackTx demo_env demo_wallet
             (snd (stackTx demo_env demo_wallet pool_new [] ''job-1'')) [] ''job-1'') = None"
proof -
  have a: "fst (stackTx demo_env demo_wallet pool_new [] []) = Some ''AAAAAAAA''"
    using stackTx_returns_ident_or_failure
      [OF demo_nanoid_length demo_nanoid_url, of pool_new demo_wallet "[]" "[]"]
    by (simp add: pool_new_def demo_nanoid)
  have i: "ident (Transaction demo_env demo_wallet [] ''job-1'') = ''job-1''"
    by (simp add: Transaction_def Let_def MAX_LENGTH_IDENT_def)
  have b: "stackTx demo_env demo_wallet pool_new [] ''job-1'' =
        (Some ''job-1'', pool_new\<lparr>transactions := [Transaction demo_env demo_wallet [] ''job-1'']\<rparr>)"
    using stackTx_returns_ident_or_failure
      [OF demo_nanoid_length demo_nanoid_url, of pool_new demo_wallet "[]" "''job-1''"]
    by (simp add: pool_new_def i)
  have c: "fst (stackTx demo_env demo_wallet
             (pool_new\<lparr>transactions := [Transaction demo_env demo_wallet [] ''job-1'']\<rparr>)
             [] ''job-1'') = None"
    using stackTx_returns_ident_or_failure
      [OF demo_nanoid_length demo_nanoid_url,
        of "pool_new\<lparr>transactions := [Transaction demo_env demo_wallet [] ''job-1'']\<rparr>"
          demo_wallet "[]" "''job-1''"]
    by (simp add: Transaction_origin)
  show ?thesis using a b c demo_nanoid_length demo_nanoid_url by simp
qed

subsection \<open>Admission of stake modifications\<close>

text \<open>
  The key of a candidate joins the three values without a separator, so different
  candidates can have the same key; the pending test of the code is the test on the key.
\<close>

lemma stake_key_shared: "stake_key ''PK'' ''x1'' 2 = stake_key ''PK'' ''x'' 12"
  by (simp add: stake_key_def string_of_int_def string_of_nat.simps)

lemma foldl_plus_sum_list: "foldl (\<lambda>p c. p + c) a xs = a + sum_list (xs :: int list)"
  by (induction xs arbitrary: a) auto

lemma credit_sum_sum_list: "credit_sum m = sum_list (map snd m)"
  by (simp add: credit_sum_def map_values_def foldl_plus_sum_list)

lemma map_has_set: "map_has (map_set m k v) k' \<longleftrightarrow> k' = k \<or> map_has m k'"
  by (simp add: map_has_def map_set_def update_conv')

lemma credit_of_set: "credit_of (map_set m k v) k' = (if k' = k then v else credit_of m k')"
  by (simp add: credit_of_def map_set_def update_conv')

lemma propose_pending:
  "map_has (mapModifyStake s) (stake_key pk i st) \<Longrightarrow> proposeModifyStake env pk i st s = s"
  by (simp add: proposeModifyStake_def)

lemma propose_admitted:
  assumes "\<not> map_has (mapModifyStake s) (stake_key pk i st)"
    and "admits (getQuorum env) (credit_of (mapStakeCredit s) pk - 1) (mapStakeCredit s)"
  shows "proposeModifyStake env pk i st s =
     s\<lparr> mapModifyStake := map_set (mapModifyStake s) (stake_key pk i st)
           \<lparr> seq = None, command = COMMAND_MODIFY_STAKE, args = ModifyStake pk i st \<rparr>,
        mapStakeCredit := map_set (mapStakeCredit s) pk (credit_of (mapStakeCredit s) pk - 1),
        timeoutModifyStake := Some (getArrayNetwork_length env * network_p2p_interval_ms env) \<rparr>"
  using assms by (simp add: proposeModifyStake_def Let_def)

lemma propose_suppressed:
  assumes "\<not> map_has (mapModifyStake s) (stake_key pk i st)"
    and "\<not> admits (getQuorum env) (credit_of (mapStakeCredit s) pk - 1) (mapStakeCredit s)"
  shows "proposeModifyStake env pk i st s =
     s\<lparr> timeoutModifyStake := Some (getArrayNetwork_length env * network_p2p_interval_ms env) \<rparr>"
  using assms by (simp add: proposeModifyStake_def Let_def)

lemma demo_server_x1_value:
  "demo_server_x1 =
     \<lparr> mapModifyStake =
         [(stake_key demo_peer ''x1'' 2,
           \<lparr> seq = None, command = COMMAND_MODIFY_STAKE, args = ModifyStake demo_peer ''x1'' 2 \<rparr>)],
       mapStakeCredit = [(demo_peer, - 1)],
       timeoutModifyStake = Some 5000 \<rparr>"
proof -
  have h: "\<not> map_has (mapModifyStake demo_server) (stake_key demo_peer ''x1'' 2)"
    by (simp add: demo_server_def map_has_def)
  have a: "admits (getQuorum demo_surroundings10)
             (credit_of (mapStakeCredit demo_server) demo_peer - 1) (mapStakeCredit demo_server)"
    by (simp add: admits_def demo_surroundings10_def demo_server_def credit_of_def
        credit_sum_def map_values_def)
  show ?thesis
    unfolding demo_server_x1_def propose_admitted [OF h a]
    by (simp add: demo_server_def map_set_def credit_of_def demo_surroundings10_def)
qed

lemma demo_peer_key_shared: "stake_key demo_peer ''x'' 12 = stake_key demo_peer ''x1'' 2"
  by (simp add: stake_key_def string_of_int_def string_of_nat.simps)


text \<open>
  C6. The admission rule is to hold for every call whose candidate (public key, ident and
  stake) is not yet pending. The code tests the joined key instead, and the candidate with
  ident \<open>x\<close> and stake \<open>12\<close> has the key of the pending candidate with ident \<open>x1\<close> and
  stake \<open>2\<close>: it is not pending, its decremented credit \<open>-2\<close> is above \<open>10 * -0.5\<close> and
  the sum of the credits \<open>-1\<close> is above \<open>10 * -1\<close>, and yet the call returns the server
  as it is, so the candidate is not admitted and the credit stays at \<open>-1\<close>.
\<close>

theorem proposeModifyStake_shared_key_refused:
  "\<not> candidate_pending demo_server_x1 demo_peer ''x'' 12
   \<and> real_of_int (credit_of (mapStakeCredit demo_server_x1) demo_peer - 1)
       > getQuorum demo_surroundings10 * (- 0.5)
   \<and> real_of_int (sum_list (map snd (mapStakeCredit demo_server_x1)))
       > getQuorum demo_surroundings10 * (- 1)
   \<and> proposeModifyStake demo_surroundings10 demo_peer ''x'' 12 demo_server_x1 = demo_server_x1
   \<and> \<not> candidate_pending
         (proposeModifyStake demo_surroundings10 demo_peer ''x'' 12 demo_server_x1)
         demo_peer ''x'' 12
   \<and> credit_of
        (mapStakeCredit (proposeModifyStake demo_surroundings10 demo_peer ''x'' 12 demo_server_x1))
        demo_peer = - 1"
proof -
  have np: "\<not> candidate_pending demo_server_x1 demo_peer ''x'' 12"
    by (simp add: candidate_pending_def demo_server_x1_value map_values_def)
  have f1: "real_of_int (credit_of (mapStakeCredit demo_server_x1) demo_peer - 1)
       > getQuorum demo_surroundings10 * (- 0.5)"
    by (simp add: demo_server_x1_value credit_of_def demo_surroundings10_def)
  have f2: "real_of_int (sum_list (map snd (mapStakeCredit demo_server_x1)))
       > getQuorum demo_surroundings10 * (- 1)"
    by (simp add: demo_server_x1_value demo_surroundings10_def)
  have k: "map_has (mapModifyStake demo_server_x1) (stake_key demo_peer ''x'' 12)"
    by (simp add: demo_server_x1_value map_has_def demo_peer_key_shared)
  have r: "proposeModifyStake demo_surroundings10 demo_peer ''x'' 12 demo_server_x1
             = demo_server_x1"
    using k by (rule propose_pending)
  have c: "credit_of (mapStakeCredit demo_server_x1) demo_peer = - 1"
    by (simp add: demo_server_x1_value credit_of_def)
  show ?thesis using np f1 f2 c by (simp add: r)
qed

text \<open>
  The admission rule on the key. For a call whose key is not in the modify-stake map, the
  command is admitted (it is in the map after the call) if and only if the decremented
  credit of the
  target is above \<open>quorum * -0.5\<close> and the sum of the credits in the table is above
  \<open>quorum * -1\<close>. On admission the credit of the target is one less than before, the other
  credits are as before and the map holds the command under the candidate's key;
  otherwise the map and the credit table are unchanged.
\<close>

theorem proposeModifyStake_admission:
  assumes "\<not> map_has (mapModifyStake s) (stake_key pk i st)"
  shows
    "(map_has (mapModifyStake (proposeModifyStake env pk i st s)) (stake_key pk i st)
        \<longleftrightarrow> real_of_int (credit_of (mapStakeCredit s) pk - 1) > getQuorum env * (- 0.5)
            \<and> real_of_int (sum_list (map snd (mapStakeCredit s))) > getQuorum env * (- 1))
     \<and> (map_has (mapModifyStake (proposeModifyStake env pk i st s)) (stake_key pk i st) \<longrightarrow>
          credit_of (mapStakeCredit (proposeModifyStake env pk i st s)) pk
            = credit_of (mapStakeCredit s) pk - 1
          \<and> (\<forall>pk'. pk' \<noteq> pk \<longrightarrow>
                credit_of (mapStakeCredit (proposeModifyStake env pk i st s)) pk'
                  = credit_of (mapStakeCredit s) pk')
          \<and> map_of (mapModifyStake (proposeModifyStake env pk i st s)) (stake_key pk i st)
              = Some \<lparr> seq = None, command = COMMAND_MODIFY_STAKE,
                       args = ModifyStake pk i st \<rparr>)
     \<and> (\<not> map_has (mapModifyStake (proposeModifyStake env pk i st s)) (stake_key pk i st) \<longrightarrow>
          mapModifyStake (proposeModifyStake env pk i st s) = mapModifyStake s
          \<and> mapStakeCredit (proposeModifyStake env pk i st s) = mapStakeCredit s)"
proof (cases "admits (getQuorum env) (credit_of (mapStakeCredit s) pk - 1) (mapStakeCredit s)")
  case True
  note eq = propose_admitted [OF assms True]
  have "map_has (mapModifyStake (proposeModifyStake env pk i st s)) (stake_key pk i st)"
    by (simp add: eq map_has_set)
  moreover have "map_of (mapModifyStake (proposeModifyStake env pk i st s)) (stake_key pk i st)
              = Some \<lparr> seq = None, command = COMMAND_MODIFY_STAKE,
                       args = ModifyStake pk i st \<rparr>"
    by (simp add: eq map_set_def update_conv')
  ultimately show ?thesis
    using True by (simp add: eq credit_of_set admits_def credit_sum_sum_list)
next
  case False
  note eq = propose_suppressed [OF assms False]
  have "\<not> map_has (mapModifyStake (proposeModifyStake env pk i st s)) (stake_key pk i st)"
    using assms by (simp add: eq)
  then show ?thesis
    using False by (simp add: eq admits_def credit_sum_sum_list)
qed

text \<open>The theorem at the first proposal on a server with empty maps and quorum 4.\<close>

theorem proposeModifyStake_admission_witness:
  "\<not> map_has (mapModifyStake demo_server) (stake_key ''PKX'' ''id'' 1)
   \<and> map_has (mapModifyStake (proposeModifyStake demo_surroundings ''PKX'' ''id'' 1 demo_server))
       (stake_key ''PKX'' ''id'' 1)
   \<and> credit_of (mapStakeCredit (proposeModifyStake demo_surroundings ''PKX'' ''id'' 1 demo_server))
       ''PKX'' = - 1"
proof -
  have h: "\<not> map_has (mapModifyStake demo_server) (stake_key ''PKX'' ''id'' 1)"
    by (simp add: demo_server_def map_has_def)
  have c: "credit_of (mapStakeCredit demo_server) ''PKX'' = 0"
    by (simp add: demo_server_def credit_of_def)
  have q: "getQuorum demo_surroundings = 4" "mapStakeCredit demo_server = []"
    by (simp_all add: demo_surroundings_def demo_server_def)
  from proposeModifyStake_admission [OF h, of demo_surroundings]
  show ?thesis using h c q by simp
qed

lemma propose_keeps_pending:
  "map_has (mapModifyStake s) k \<Longrightarrow> map_has (mapModifyStake (proposeModifyStake env pk i st s)) k"
  by (simp add: proposeModifyStake_def Let_def map_has_set)

lemma call_keeps_pending:
  "map_has (mapModifyStake s) k \<Longrightarrow> map_has (mapModifyStake (call c s)) k"
  by (cases c) (simp_all add: propose_keeps_pending incStakeCredit_def)

lemma propose_changed_pending:
  assumes "mapStakeCredit (proposeModifyStake env pk i st s) \<noteq> mapStakeCredit s"
  shows "map_has (mapModifyStake (proposeModifyStake env pk i st s)) (stake_key pk i st)"
proof (cases "map_has (mapModifyStake s) (stake_key pk i st)")
  case True
  then show ?thesis using assms by (simp add: propose_pending)
next
  case False
  show ?thesis
  proof (cases "admits (getQuorum env) (credit_of (mapStakeCredit s) pk - 1) (mapStakeCredit s)")
    case True
    then show ?thesis by (simp add: propose_admitted [OF False True] map_has_set)
  next
    case nadm: False
    then show ?thesis using assms by (simp add: propose_suppressed [OF False nadm])
  qed
qed

lemma decrements_pending:
  "map_has (mapModifyStake s) (stake_key pk i st) \<Longrightarrow> decrements pk i st s cs = 0"
proof (induction cs arbitrary: s)
  case Nil
  then show ?case by simp
next
  case (Cons c cs)
  have same: "proposes pk i st c \<Longrightarrow> call c s = s"
    using Cons.prems by (cases c) (auto simp: propose_pending)
  have "decrements pk i st (call c s) cs = 0"
    using Cons.IH call_keeps_pending [OF Cons.prems] by blast
  then show ?case using same by auto
qed

lemma decrements_le_1: "decrements pk i st s cs \<le> 1"
proof (induction cs arbitrary: s)
  case Nil
  then show ?case by simp
next
  case (Cons c cs)
  show ?case
  proof (cases "proposes pk i st c \<and> mapStakeCredit (call c s) \<noteq> mapStakeCredit s")
    case True
    then obtain env where c: "c = ProposeModifyStake env pk i st"
      by (cases c) auto
    with True have "map_has (mapModifyStake (call c s)) (stake_key pk i st)"
      by (simp add: propose_changed_pending)
    then have "decrements pk i st (call c s) cs = 0" by (rule decrements_pending)
    with True show ?thesis by simp
  next
    case False
    then show ?thesis using Cons.IH [of "call c s"] by auto
  qed
qed

lemma propose_twice_maps:
  "mapModifyStake (proposeModifyStake env pk i st (proposeModifyStake env pk i st s))
     = mapModifyStake (proposeModifyStake env pk i st s)
   \<and> mapStakeCredit (proposeModifyStake env pk i st (proposeModifyStake env pk i st s))
     = mapStakeCredit (proposeModifyStake env pk i st s)"
proof (cases "map_has (mapModifyStake (proposeModifyStake env pk i st s)) (stake_key pk i st)")
  case True
  then show ?thesis by (simp add: propose_pending)
next
  case False
  then have np: "\<not> map_has (mapModifyStake s) (stake_key pk i st)"
    using propose_keeps_pending by blast
  have na: "\<not> admits (getQuorum env) (credit_of (mapStakeCredit s) pk - 1) (mapStakeCredit s)"
    using False propose_admitted [OF np] by (auto simp: map_has_set)
  note eq = propose_suppressed [OF np na]
  have "proposeModifyStake env pk i st (proposeModifyStake env pk i st s)
          = proposeModifyStake env pk i st s"
    unfolding eq using np na by (simp add: proposeModifyStake_def Let_def)
  then show ?thesis by simp
qed

text \<open>
  C8. A call for a candidate that is pending in the modify-stake map returns the server as
  it is; so after a call that admitted the candidate, a second call with the same
  arguments changes nothing, whatever the quorum then is. A second call right after the
  first, under the same quorum, leaves both maps as the first call left them in every case.
  In a run of calls between two firings of the timer, at most one call for a given
  candidate changes the credit table.
\<close>

theorem proposeModifyStake_idempotent:
  "(map_has (mapModifyStake s) (stake_key pk i st) \<longrightarrow> proposeModifyStake env pk i st s = s)
   \<and> (map_has (mapModifyStake (proposeModifyStake env pk i st s)) (stake_key pk i st) \<longrightarrow>
        proposeModifyStake env' pk i st (proposeModifyStake env pk i st s)
          = proposeModifyStake env pk i st s)
   \<and> mapModifyStake (proposeModifyStake env pk i st (proposeModifyStake env pk i st s))
       = mapModifyStake (proposeModifyStake env pk i st s)
   \<and> mapStakeCredit (proposeModifyStake env pk i st (proposeModifyStake env pk i st s))
       = mapStakeCredit (proposeModifyStake env pk i st s)
   \<and> decrements pk i st s cs \<le> 1"
  using propose_twice_maps [of env pk i st s] decrements_le_1 [of pk i st s cs]
  by (simp add: propose_pending)

text \<open>The theorem at two equal proposals on a server with empty maps and quorum 4.\<close>

theorem proposeModifyStake_idempotent_witness:
  "map_has (mapModifyStake (proposeModifyStake demo_surroundings ''PKX'' ''id'' 1 demo_server))
       (stake_key ''PKX'' ''id'' 1)
   \<and> proposeModifyStake demo_surroundings ''PKX'' ''id'' 1
        (proposeModifyStake demo_surroundings ''PKX'' ''id'' 1 demo_server)
      = proposeModifyStake demo_surroundings ''PKX'' ''id'' 1 demo_server
   \<and> mapStakeCredit (proposeModifyStake demo_surroundings ''PKX'' ''id'' 1 demo_server)
      = [(''PKX'', - 1)]"
proof -
  have a: "admits (getQuorum demo_surroundings) (credit_of (mapStakeCredit demo_server) ''PKX'' - 1)
             (mapStakeCredit demo_server)"
    by (simp add: admits_def demo_surroundings_def demo_server_def credit_of_def credit_sum_def
        map_values_def)
  have h: "\<not> map_has (mapModifyStake demo_server) (stake_key ''PKX'' ''id'' 1)"
    by (simp add: demo_server_def map_has_def)
  note eq = propose_admitted [OF h a]
  have p: "map_has (mapModifyStake (proposeModifyStake demo_surroundings ''PKX'' ''id'' 1 demo_server))
       (stake_key ''PKX'' ''id'' 1)"
    by (simp add: eq map_has_set)
  have c: "mapStakeCredit (proposeModifyStake demo_surroundings ''PKX'' ''id'' 1 demo_server)
      = [(''PKX'', - 1)]"
    unfolding eq by (simp add: map_set_def demo_server_def credit_of_def)
  from proposeModifyStake_idempotent
    [of demo_server "''PKX''" "''id''" 1 demo_surroundings demo_surroundings "[]"] p c
  show ?thesis by simp
qed

end
